theory Spec2Isabelle
  imports Main "HOL-Library.Multiset" "HOL-Library.Sublist"
begin

section \<open>Data model\<close>

text \<open>
  The three collections of the document store (\<^verbatim>\<open>Question\<close>, \<^verbatim>\<open>Answer\<close>, \<^verbatim>\<open>Tag\<close>) and the
  documents read from them.  An \<^verbatim>\<open>ObjectId\<close> is a natural number; a \<^verbatim>\<open>Date\<close> is the integer
  that \<^verbatim>\<open>getTime()\<close> returns (milliseconds since the epoch).  A string is a list of
  code units, and a character of the model is a code unit below 256: the characters
  U+0000 to U+00FF (Basic Latin and Latin-1 Supplement).  Strings with other characters
  are not values of the model's string type.
\<close>

type_synonym oid = nat
type_synonym date = int

record tag =
  tag_id :: oid
  name :: string

record answer =
  ans_id :: oid
  ans_text :: string
  ans_by :: string
  ans_date_time :: date

text \<open>
  An entry of a question's \<^verbatim>\<open>answers\<close> (or \<^verbatim>\<open>tags\<close>) array is a bare reference as long as
  the path has not been populated, and the referenced document afterwards.
\<close>

datatype answer_ref = AnswerId oid | AnswerDoc answer

datatype tag_ref = TagId oid | TagDoc tag

record question =
  q_id :: oid
  title :: string
  qtext :: string
  asked_by :: string
  ask_date_time :: date
  views :: nat
  answers :: "answer_ref list"
  tags :: "tag_ref list"

text \<open>A collection is the list of its documents in natural (retrieval) order.\<close>

record database =
  Question :: "question list"
  Answer :: "answer list"
  Tag :: "tag list"

text \<open>The three titles that \<^verbatim>\<open>searchStrategy.ts\<close> imports from \<^verbatim>\<open>../data/posts_strings\<close>.\<close>

record posts_strings =
  Q1_DESC :: string
  Q2_DESC :: string
  Q3_DESC :: string

section \<open>Strings\<close>

text \<open>
  \<^verbatim>\<open>String.prototype.toLowerCase\<close>, one code unit at a time.  The upper-case letters
  among the characters U+0000 to U+00FF are \<^verbatim>\<open>A\<close> to \<^verbatim>\<open>Z\<close> (65 to 90), U+00C0 to U+00D6
  (192 to 214) and U+00D8 to U+00DE (216 to 222); the lower-case letter of each lies 32
  above it.  Every other character, the multiplication sign U+00D7 among them, is left
  as it is.
\<close>

definition toLowerCase_char :: "char \<Rightarrow> char" where
  "toLowerCase_char c =
     (let n = (of_char c :: nat)
      in if (65 \<le> n \<and> n \<le> 90) \<or> (192 \<le> n \<and> n \<le> 214) \<or> (216 \<le> n \<and> n \<le> 222)
         then char_of (n + 32)
         else c)"

definition toLowerCase :: "string \<Rightarrow> string" where
  "toLowerCase s = map toLowerCase_char s"

text \<open>
  \<^verbatim>\<open>s.split(sep)\<close> for a one-character separator: the pieces between the occurrences of
  \<^verbatim>\<open>sep\<close>, empty pieces included; the empty string gives one empty piece.
\<close>

fun split :: "char \<Rightarrow> string \<Rightarrow> string list" where
  "split sep [] = [[]]"
| "split sep (c # cs) =
     (if c = sep then [] # split sep cs
      else (case split sep cs of
              [] \<Rightarrow> [[c]]
            | t # ts \<Rightarrow> (c # t) # ts))"

definition startsWith :: "string \<Rightarrow> char \<Rightarrow> bool" where
  "startsWith s c = (case s of [] \<Rightarrow> False | x # _ \<Rightarrow> x = c)"

definition endsWith :: "string \<Rightarrow> char \<Rightarrow> bool" where
  "endsWith s c = (case rev s of [] \<Rightarrow> False | x # _ \<Rightarrow> x = c)"

text \<open>\<^verbatim>\<open>term.slice(1, -1)\<close>: the string without its first and its last character.\<close>

definition slice_1_m1 :: "string \<Rightarrow> string" where
  "slice_1_m1 s = butlast (tl s)"

section \<open>The activity timestamp (\<^verbatim>\<open>models/schema/question.ts\<close>)\<close>

definition hasAnswers :: "question \<Rightarrow> bool" where
  "hasAnswers q = (length (answers q) > 0)"

text \<open>
  The body of the \<^verbatim>\<open>forEach\<close>: a populated answer contributes its own date, a bare
  \<^verbatim>\<open>ObjectId\<close> contributes the question's date as a fallback.  (The array holds nothing
  else, so the branch that pushes no date is never taken.)
\<close>

fun answerDate :: "date \<Rightarrow> answer_ref \<Rightarrow> date" where
  "answerDate ask (AnswerDoc a) = ans_date_time a"
| "answerDate ask (AnswerId i) = ask"

text \<open>\<^verbatim>\<open>Math.max(...ds)\<close> on a non-empty list of finite numbers.\<close>

fun Math_max :: "int list \<Rightarrow> int" where
  "Math_max [] = 0"
| "Math_max [d] = d"
| "Math_max (d # ds) = max d (Math_max ds)"

definition mostRecentActivity :: "question \<Rightarrow> date" where
  "mostRecentActivity q =
     (if \<not> hasAnswers q then ask_date_time q
      else
        let answerDates = map (answerDate (ask_date_time q)) (answers q) in
        if length answerDates = 0 then ask_date_time q
        else
          let latestAnswerDate = Math_max answerDates in
          if latestAnswerDate > ask_date_time q then latestAnswerDate else ask_date_time q)"

section \<open>Reading the store (\<^verbatim>\<open>populate\<close>, \<^verbatim>\<open>find\<close>, \<^verbatim>\<open>sort\<close>)\<close>

text \<open>
  \<^verbatim>\<open>populate('answers')\<close> and \<^verbatim>\<open>populate('tags')\<close> replace every reference by the document
  with that \<^verbatim>\<open>_id\<close>; a reference to no document is dropped from the array.
\<close>

definition populateAnswer :: "database \<Rightarrow> answer_ref \<Rightarrow> answer_ref option" where
  "populateAnswer db r =
     (case r of
        AnswerDoc a \<Rightarrow> Some (AnswerDoc a)
      | AnswerId i \<Rightarrow> map_option AnswerDoc (List.find (\<lambda>a. ans_id a = i) (Answer db)))"

definition populate_answers :: "database \<Rightarrow> question \<Rightarrow> question" where
  "populate_answers db q = q\<lparr>answers := List.map_filter (populateAnswer db) (answers q)\<rparr>"

definition populateTag :: "database \<Rightarrow> tag_ref \<Rightarrow> tag_ref option" where
  "populateTag db r =
     (case r of
        TagDoc t \<Rightarrow> Some (TagDoc t)
      | TagId i \<Rightarrow> map_option TagDoc (List.find (\<lambda>t. tag_id t = i) (Tag db)))"

definition populate_tags :: "database \<Rightarrow> question \<Rightarrow> question" where
  "populate_tags db q = q\<lparr>tags := List.map_filter (populateTag db) (tags q)\<rparr>"

text \<open>
  \<^verbatim>\<open>arr.sort(cmp)\<close>: the stable sort of the array by a comparator, written as insertion
  of each element in front of the first one it does not have to follow.
\<close>

fun insert_sorted :: "('a \<Rightarrow> 'a \<Rightarrow> int) \<Rightarrow> 'a \<Rightarrow> 'a list \<Rightarrow> 'a list" where
  "insert_sorted cmp x [] = [x]"
| "insert_sorted cmp x (y # ys) =
     (if cmp x y \<le> 0 then x # y # ys else y # insert_sorted cmp x ys)"

definition Array_sort :: "('a \<Rightarrow> 'a \<Rightarrow> int) \<Rightarrow> 'a list \<Rightarrow> 'a list" where
  "Array_sort cmp xs = foldr (insert_sorted cmp) xs []"

text \<open>
  The comparator of both activity sorts:
  \<^verbatim>\<open>(a, b) => dateB.getTime() - dateA.getTime()\<close> with the dates read from
  \<^verbatim>\<open>mostRecentActivity\<close>.
\<close>

definition activityCompare :: "question \<Rightarrow> question \<Rightarrow> int" where
  "activityCompare a b = mostRecentActivity b - mostRecentActivity a"

text \<open>
  \<^verbatim>\<open>.sort({ ask_date_time: -1 })\<close>, the store's descending sort.  The store leaves the
  order of documents with equal keys open; the model keeps them in natural order.
\<close>

definition sort_ask_date_time_desc :: "question list \<Rightarrow> question list" where
  "sort_ask_date_time_desc qs = Array_sort (\<lambda>a b. ask_date_time b - ask_date_time a) qs"

section \<open>Regular expressions built from search terms\<close>

text \<open>
  The result of a computation that may throw.  \<^verbatim>\<open>new RegExp(term, 'i')\<close> is modelled on
  two classes of patterns: a term without any syntax character is a literal pattern, and a
  term with an opening bracket but neither a closing bracket nor a backslash is an
  unterminated character class, for which the constructor throws \<^verbatim>\<open>SyntaxError\<close>.
  Every other term is outside the model (\<open>NotModelled\<close>).
\<close>

datatype 'a outcome = Value 'a | SyntaxError | NotModelled

definition syntax_characters :: string where
  "syntax_characters =
     [CHR ''^'', CHR ''$'', CHR 0x5C, CHR ''.'', CHR ''*'', CHR ''+'', CHR ''?'',
      CHR ''('', CHR '')'', CHR ''['', CHR '']'', CHR ''{'', CHR ''}'', CHR ''|'']"

text \<open>A compiled literal pattern with flag \<^verbatim>\<open>i\<close> is the list of its characters.\<close>

type_synonym regexp = string

definition RegExp_i :: "string \<Rightarrow> regexp outcome" where
  "RegExp_i term =
     (if list_all (\<lambda>c. c \<notin> set syntax_characters) term then Value term
      else if CHR ''['' \<in> set term \<and> CHR '']'' \<notin> set term \<and> CHR 0x5C \<notin> set term
        then SyntaxError
      else NotModelled)"

text \<open>
  \<^verbatim>\<open>terms.map(term => new RegExp(term, 'i'))\<close>.  The constructor throws nothing but
  \<^verbatim>\<open>SyntaxError\<close>, so one term known to throw decides the outcome also after a term
  outside the model.
\<close>

fun map_RegExp_i :: "string list \<Rightarrow> regexp list outcome" where
  "map_RegExp_i [] = Value []"
| "map_RegExp_i (t # ts) =
     (case RegExp_i t of
        SyntaxError \<Rightarrow> SyntaxError
      | NotModelled \<Rightarrow>
          (case map_RegExp_i ts of SyntaxError \<Rightarrow> SyntaxError | _ \<Rightarrow> NotModelled)
      | Value r \<Rightarrow>
          (case map_RegExp_i ts of
             Value rs \<Rightarrow> Value (r # rs)
           | SyntaxError \<Rightarrow> SyntaxError
           | NotModelled \<Rightarrow> NotModelled))"

text \<open>
  Matching a literal pattern with flag \<^verbatim>\<open>i\<close>: the pattern matches at the head of the
  subject, or somewhere in it.  Under the flag two characters are the same when their
  lower-case forms are.
\<close>

fun match_here :: "regexp \<Rightarrow> string \<Rightarrow> bool" where
  "match_here [] s = True"
| "match_here (p # ps) [] = False"
| "match_here (p # ps) (c # cs) =
     (toLowerCase_char p = toLowerCase_char c \<and> match_here ps cs)"

fun regexp_test :: "regexp \<Rightarrow> string \<Rightarrow> bool" where
  "regexp_test r [] = match_here r []"
| "regexp_test r (c # cs) = (match_here r (c # cs) \<or> regexp_test r cs)"

section \<open>Queries (\<^verbatim>\<open>RegularSearchStrategy.buildQuery\<close>)\<close>

text \<open>
  The query object has at most two keys: \<^verbatim>\<open>tags: { $in: tagIds }\<close> and
  \<^verbatim>\<open>$or: [{ title: { $in: searchRegex } }, { text: { $in: searchRegex } }]\<close>.
\<close>

record query =
  query_tags :: "oid list option"
  query_or :: "regexp list option"

definition empty_query :: query where
  "empty_query = \<lparr>query_tags = None, query_or = None\<rparr>"

fun tag_ref_id :: "tag_ref \<Rightarrow> oid" where
  "tag_ref_id (TagId i) = i"
| "tag_ref_id (TagDoc t) = tag_id t"

text \<open>What the store's \<^verbatim>\<open>find(query)\<close> selects: every key of the query must hold.\<close>

definition matches :: "query \<Rightarrow> question \<Rightarrow> bool" where
  "matches qu q =
     ((case query_tags qu of
         None \<Rightarrow> True
       | Some ids \<Rightarrow> list_ex (\<lambda>t. tag_ref_id t \<in> set ids) (tags q))
      \<and>
      (case query_or qu of
         None \<Rightarrow> True
       | Some res \<Rightarrow> list_ex (\<lambda>r. regexp_test r (title q)) res
                     \<or> list_ex (\<lambda>r. regexp_test r (qtext q)) res))"

definition buildQuery :: "string list \<Rightarrow> oid list option \<Rightarrow> query outcome" where
  "buildQuery regularSearchTerms tagIds =
     (let query = empty_query;
          query = (case tagIds of
                     Some ids \<Rightarrow> if length ids > 0 then query\<lparr>query_tags := Some ids\<rparr> else query
                   | None \<Rightarrow> query)
      in if length regularSearchTerms > 0
         then (case map_RegExp_i regularSearchTerms of
                 Value searchRegex \<Rightarrow> Value (query\<lparr>query_or := Some searchRegex\<rparr>)
               | SyntaxError \<Rightarrow> SyntaxError
               | NotModelled \<Rightarrow> NotModelled)
         else Value query)"

section \<open>The question repository (\<^verbatim>\<open>QuestionRepository\<close> and the model's statics)\<close>

text \<open>
  The repository returns the documents it read; their conversion to plain objects for the
  wire is left out.
\<close>

definition getNewestQuestions :: "database \<Rightarrow> question list" where
  "getNewestQuestions db = map (populate_tags db) (sort_ask_date_time_desc (Question db))"

definition getUnansweredQuestions :: "database \<Rightarrow> question list" where
  "getUnansweredQuestions db =
     map (populate_tags db)
       (sort_ask_date_time_desc (filter (\<lambda>q. length (answers q) = 0) (Question db)))"

definition getActiveQuestions :: "database \<Rightarrow> question list" where
  "getActiveQuestions db =
     (let questions = map (populate_answers db \<circ> populate_tags db) (Question db)
      in Array_sort activityCompare questions)"

definition getQuestionsByQuery :: "database \<Rightarrow> query \<Rightarrow> string option \<Rightarrow> question list" where
  "getQuestionsByQuery db query order =
     (if order = Some ''active'' then
        (let allQuestions =
               map (populate_answers db \<circ> populate_tags db) (filter (matches query) (Question db))
         in Array_sort activityCompare allQuestions)
      else if order = Some ''unanswered'' then
        map (populate_tags db)
          (sort_ask_date_time_desc
             (filter (\<lambda>q. matches query q \<and> length (answers q) = 0) (Question db)))
      else
        map (populate_tags db) (sort_ask_date_time_desc (filter (matches query) (Question db))))"

definition getQuestionsByOrder :: "database \<Rightarrow> string option \<Rightarrow> question list" where
  "getQuestionsByOrder db order =
     (if order = Some ''newest'' then getNewestQuestions db
      else if order = Some ''unanswered'' then getUnansweredQuestions db
      else if order = Some ''active'' then getActiveQuestions db
      else getNewestQuestions db)"

definition findQuestionByTitle :: "database \<Rightarrow> string \<Rightarrow> question option" where
  "findQuestionByTitle db t =
     (case List.find (\<lambda>q. title q = t) (Question db) of
        None \<Rightarrow> None
      | Some question \<Rightarrow> Some (populate_tags db question))"

section \<open>Search strategies (\<^verbatim>\<open>strategies/searchStrategy.ts\<close>)\<close>

record search_terms =
  tagSearchTerms :: "string list"
  regularSearchTerms :: "string list"

definition is_tag_token :: "string \<Rightarrow> bool" where
  "is_tag_token term = (startsWith term CHR ''['' \<and> endsWith term CHR '']'')"

definition parseSearchTerms :: "string \<Rightarrow> search_terms" where
  "parseSearchTerms searchStr =
     (let searchTerms = split CHR '' '' searchStr
      in \<lparr>tagSearchTerms =
             map (\<lambda>term. toLowerCase (slice_1_m1 term)) (filter is_tag_token searchTerms),
          regularSearchTerms =
             map toLowerCase (filter (\<lambda>term. \<not> is_tag_token term) searchTerms)\<rparr>)"

definition isSpecialSearch :: "string list \<Rightarrow> string list \<Rightarrow> bool" where
  "isSpecialSearch regularTerms tagTerms =
     (''40'' \<in> set regularTerms \<and> ''million'' \<in> set regularTerms
      \<and> ''documents'' \<in> set regularTerms \<and> ''javascript'' \<in> set tagTerms)"

datatype strategy =
    DefaultSearchStrategy
  | SpecialSearchStrategy
  | RegularSearchStrategy "string list" "string list"

text \<open>\<^verbatim>\<open>!search\<close> holds for an absent search string and for the empty one.\<close>

definition createStrategy :: "string option \<Rightarrow> strategy" where
  "createStrategy search =
     (case search of
        None \<Rightarrow> DefaultSearchStrategy
      | Some s \<Rightarrow>
          if s = [] then DefaultSearchStrategy
          else
            let terms = parseSearchTerms s in
            if isSpecialSearch (regularSearchTerms terms) (tagSearchTerms terms)
            then SpecialSearchStrategy
            else RegularSearchStrategy (tagSearchTerms terms) (regularSearchTerms terms))"

text \<open>
  \<^verbatim>\<open>findTagIds\<close>: \<open>None\<close> is the source's \<^verbatim>\<open>null\<close>.  The store's
  \<^verbatim>\<open>find({ name: { $in: terms } })\<close> compares the stored names with the terms exactly.
\<close>

definition findTagIds :: "database \<Rightarrow> string list \<Rightarrow> oid list option" where
  "findTagIds db tagTerms =
     (if length tagTerms = 0 then Some []
      else
        let matchingTags = filter (\<lambda>t. name t \<in> set tagTerms) (Tag db) in
        if length matchingTags = 0 then None
        else Some (map tag_id matchingTags))"

fun execute :: "posts_strings \<Rightarrow> database \<Rightarrow> strategy \<Rightarrow> string option \<Rightarrow> question list outcome"
  where
  "execute ps db DefaultSearchStrategy order = Value (getQuestionsByOrder db order)"
| "execute ps db SpecialSearchStrategy order =
     (let q3 = findQuestionByTitle db (Q3_DESC ps);
          q2 = findQuestionByTitle db (Q2_DESC ps);
          q1 = findQuestionByTitle db (Q1_DESC ps)
      in Value (List.map_filter (\<lambda>q. q) [q3, q2, q1]))"
| "execute ps db (RegularSearchStrategy tagTerms regularTerms) order =
     (case findTagIds db tagTerms of
        None \<Rightarrow> Value []
      | Some tagIds \<Rightarrow>
          (case buildQuery regularTerms (Some tagIds) of
             Value query \<Rightarrow> Value (getQuestionsByQuery db query order)
           | SyntaxError \<Rightarrow> SyntaxError
           | NotModelled \<Rightarrow> NotModelled))"

text \<open>The entry point, \<^verbatim>\<open>getQuestions\<close> of the question service.\<close>

definition getQuestions ::
  "posts_strings \<Rightarrow> database \<Rightarrow> string option \<Rightarrow> string option \<Rightarrow> question list outcome" where
  "getQuestions ps db order search = execute ps db (createStrategy search) order"

section \<open>Notions used to state the properties\<close>

text \<open>The answer documents that a question document holds in its \<^verbatim>\<open>answers\<close> array.\<close>

fun answer_docs :: "answer_ref list \<Rightarrow> answer list" where
  "answer_docs [] = []"
| "answer_docs (AnswerDoc a # rs) = a # answer_docs rs"
| "answer_docs (AnswerId i # rs) = answer_docs rs"

text \<open>\<^verbatim>\<open>pieces.join(sep)\<close>, the inverse of \<^verbatim>\<open>split\<close>.\<close>

fun join :: "char \<Rightarrow> string list \<Rightarrow> string" where
  "join sep [] = []"
| "join sep [t] = t"
| "join sep (t # ts) = t @ sep # join sep ts"

text \<open>A term in which no character has a meaning in a regular expression.\<close>

definition literal_term :: "string \<Rightarrow> bool" where
  "literal_term t = list_all (\<lambda>c. c \<notin> set syntax_characters) t"



section \<open>Example data\<close>

definition answer_1 :: answer where
  "answer_1 = \<lparr>ans_id = 1, ans_text = ''use a stream'', ans_by = ''ann'', ans_date_time = 300\<rparr>"

definition answer_2 :: answer where
  "answer_2 = \<lparr>ans_id = 2, ans_text = ''split the file'', ans_by = ''bob'', ans_date_time = 150\<rparr>"

definition question_1 :: question where
  "question_1 =
     \<lparr>q_id = 1, title = ''Parsing JSON'', qtext = ''how to parse a large file'',
      asked_by = ''eve'', ask_date_time = 100, views = 0,
      answers = [AnswerId 1, AnswerId 2], tags = [TagId 1]\<rparr>"

definition question_2 :: question where
  "question_2 =
     \<lparr>q_id = 2, title = ''Hooks'', qtext = ''state in a hook'',
      asked_by = ''dan'', ask_date_time = 200, views = 0,
      answers = [], tags = [TagId 2]\<rparr>"

definition question_3 :: question where
  "question_3 =
     \<lparr>q_id = 3, title = ''Routing'', qtext = ''JSON routes'',
      asked_by = ''ann'', ask_date_time = 250, views = 0,
      answers = [], tags = [TagId 1, TagId 2]\<rparr>"

definition example_db :: database where
  "example_db =
     \<lparr>Question = [question_1, question_2, question_3],
      Answer = [answer_1, answer_2],
      Tag = [\<lparr>tag_id = 1, name = ''javascript''\<rparr>, \<lparr>tag_id = 2, name = ''React''\<rparr>]\<rparr>"

definition example_titles :: posts_strings where
  "example_titles = \<lparr>Q1_DESC = ''Parsing JSON'', Q2_DESC = ''No such title'', Q3_DESC = ''Routing''\<rparr>"

section \<open>Theorems\<close>

subsection \<open>The activity timestamp\<close>

lemma Math_max_Max: "ds \<noteq> [] \<Longrightarrow> Math_max ds = Max (set ds)"
  by (induction ds rule: Math_max.induct) (auto simp: max_def)

lemma Max_answerDates:
  "Max (insert ask (set (map (answerDate ask) rs)))
     = Max (insert ask (ans_date_time ` set (answer_docs rs)))"
proof (induction rs rule: answer_docs.induct)
  case 1
  show ?case by simp
next
  case (2 a rs)
  have "Max (insert ask (set (map (answerDate ask) (AnswerDoc a # rs))))
      = Max (insert (ans_date_time a) (insert ask (set (map (answerDate ask) rs))))"
    by (simp add: insert_commute)
  also have "\<dots> = max (ans_date_time a) (Max (insert ask (set (map (answerDate ask) rs))))"
    by (rule Max_insert) simp_all
  also have "\<dots> = max (ans_date_time a) (Max (insert ask (ans_date_time ` set (answer_docs rs))))"
    by (simp only: "2.IH")
  also have "\<dots> = Max (insert (ans_date_time a) (insert ask (ans_date_time ` set (answer_docs rs))))"
    by (rule Max_insert [symmetric]) simp_all
  also have "\<dots> = Max (insert ask (ans_date_time ` set (answer_docs (AnswerDoc a # rs))))"
    by (simp add: insert_commute)
  finally show ?case .
next
  case (3 i rs)
  then show ?case by simp
qed

lemma mostRecentActivity_Max:
  "mostRecentActivity q
     = Max (insert (ask_date_time q) (ans_date_time ` set (answer_docs (answers q))))"
proof (cases "answers q = []")
  case True
  then show ?thesis by (simp add: mostRecentActivity_def hasAnswers_def)
next
  case False
  then have "mostRecentActivity q
      = max (ask_date_time q) (Max (set (map (answerDate (ask_date_time q)) (answers q))))"
    by (auto simp: mostRecentActivity_def hasAnswers_def Let_def Math_max_Max max_def)
  also have "\<dots> = Max (insert (ask_date_time q)
                          (set (map (answerDate (ask_date_time q)) (answers q))))"
    using False by (intro Max_insert [symmetric]) simp_all
  finally show ?thesis using Max_answerDates by simp
qed

lemma mostRecentActivity_no_answers:
  "answers q = [] \<Longrightarrow> mostRecentActivity q = ask_date_time q"
  by (simp add: mostRecentActivity_def hasAnswers_def)

lemma map_filter_populateAnswer:
  "List.map_filter (populateAnswer db) rs
     = map AnswerDoc (answer_docs (List.map_filter (populateAnswer db) rs))"
  by (induction rs)
    (auto simp: List.map_filter_simps populateAnswer_def split: option.splits answer_ref.splits)

lemma answers_populate_answers:
  "answers (populate_answers db q) = map AnswerDoc (answer_docs (answers (populate_answers db q)))"
  unfolding populate_answers_def using map_filter_populateAnswer by simp

text \<open>
  C1: the activity timestamp of a question document is the maximum of the question's own
  creation timestamp and the creation timestamps of the answer documents it holds; with an
  empty \<^verbatim>\<open>answers\<close> array it is the question's own creation timestamp.  After
  \<^verbatim>\<open>populate('answers')\<close>, which both activity sorts run first, every entry of the array is
  an answer document, so the maximum ranges over all answers of the question.  (An entry
  left as a bare reference contributes the question's own timestamp, which the maximum
  already contains.)
\<close>

theorem mostRecentActivity_is_max:
  "mostRecentActivity q
     = Max (insert (ask_date_time q) (ans_date_time ` set (answer_docs (answers q))))
   \<and> (answers q = [] \<longrightarrow> mostRecentActivity q = ask_date_time q)
   \<and> answers (populate_answers db q)
       = map AnswerDoc (answer_docs (answers (populate_answers db q)))"
  using mostRecentActivity_Max mostRecentActivity_no_answers answers_populate_answers
  by blast

theorem mostRecentActivity_is_max_witness:
  "answers question_2 = []
   \<and> mostRecentActivity question_2 = ask_date_time question_2
   \<and> mostRecentActivity (populate_answers example_db question_1) = 300
   \<and> answers (populate_answers example_db question_1) = [AnswerDoc answer_1, AnswerDoc answer_2]"
proof -
  have e: "answers question_2 = []"
    by (simp add: question_2_def)
  have p: "answers (populate_answers example_db question_1) = [AnswerDoc answer_1, AnswerDoc answer_2]"
    by (simp add: populate_answers_def populateAnswer_def List.map_filter_simps question_1_def
        example_db_def answer_1_def answer_2_def)
  have a: "ask_date_time (populate_answers example_db question_1) = 100"
    by (simp add: populate_answers_def question_1_def)
  have "mostRecentActivity (populate_answers example_db question_1) = 300"
    using mostRecentActivity_is_max [of "populate_answers example_db question_1" example_db]
    by (simp add: p a answer_1_def answer_2_def)
  with e p mostRecentActivity_is_max [of question_2 example_db] show ?thesis
    by simp
qed

text \<open>
  C8: for every question document, populated or not, the computed activity timestamp is
  never earlier than the question's own creation timestamp.
\<close>

theorem activity_not_before_creation:
  "ask_date_time q \<le> mostRecentActivity q"
  by (simp add: mostRecentActivity_def Let_def)

subsection \<open>Sorting\<close>

lemma insert_sorted_insort_key:
  fixes key :: "'a \<Rightarrow> int"
  shows "insert_sorted (\<lambda>a b. key b - key a) x ys = insort_key (\<lambda>q. - key q) x ys"
  by (induction ys) auto

lemma Array_sort_sort_key:
  fixes key :: "'a \<Rightarrow> int"
  shows "Array_sort (\<lambda>a b. key b - key a) xs = sort_key (\<lambda>q. - key q) xs"
  by (induction xs) (simp_all add: Array_sort_def insert_sorted_insort_key)

lemma mset_Array_sort:
  fixes key :: "'a \<Rightarrow> int"
  shows "mset (Array_sort (\<lambda>a b. key b - key a) xs) = mset xs"
  by (simp add: Array_sort_sort_key)

lemma sorted_Array_sort:
  fixes key :: "'a \<Rightarrow> int"
  shows "sorted_wrt (\<lambda>a b. key b \<le> key a) (Array_sort (\<lambda>a b. key b - key a) xs)"
proof -
  have "sorted (map (\<lambda>q. - key q) (sort_key (\<lambda>q. - key q) xs))"
    by (rule sorted_sort_key)
  then show ?thesis
    by (simp add: Array_sort_sort_key sorted_map)
qed

lemma stable_Array_sort:
  fixes key :: "'a \<Rightarrow> int"
  shows "filter (\<lambda>q. key q = k) (Array_sort (\<lambda>a b. key b - key a) xs)
           = filter (\<lambda>q. key q = k) xs"
proof -
  have "filter (\<lambda>q. - key q = - k) (sort_key (\<lambda>q. - key q) xs)
          = filter (\<lambda>q. - key q = - k) xs"
    by (rule sort_key_stable)
  then show ?thesis
    by (simp add: Array_sort_sort_key)
qed

lemma activityCompare_eq:
  "activityCompare = (\<lambda>a b. mostRecentActivity b - mostRecentActivity a)"
  by (intro ext) (simp add: activityCompare_def)

lemma ask_date_time_populate_tags: "ask_date_time (populate_tags db q) = ask_date_time q"
  by (simp add: populate_tags_def)

lemma sorted_wrt_map_populate_tags:
  "sorted_wrt (\<lambda>a b. ask_date_time b \<le> ask_date_time a) (map (populate_tags db) qs)
     = sorted_wrt (\<lambda>a b. ask_date_time b \<le> ask_date_time a) qs"
  by (simp add: sorted_wrt_map ask_date_time_populate_tags)

lemma matches_empty_query: "matches empty_query q"
  by (simp add: matches_def empty_query_def)

lemma getQuestionsByOrder_eq:
  "getQuestionsByOrder db order = getQuestionsByQuery db empty_query order"
  by (simp add: getQuestionsByOrder_def getQuestionsByQuery_def getNewestQuestions_def
      getUnansweredQuestions_def getActiveQuestions_def matches_empty_query)

lemma getQuestionsByQuery_newest:
  "order \<noteq> Some ''unanswered'' \<Longrightarrow> order \<noteq> Some ''active'' \<Longrightarrow>
   mset (getQuestionsByQuery db query order)
     = mset (map (populate_tags db) (filter (matches query) (Question db)))
   \<and> sorted_wrt (\<lambda>a b. ask_date_time b \<le> ask_date_time a) (getQuestionsByQuery db query order)"
  by (simp add: getQuestionsByQuery_def sort_ask_date_time_desc_def mset_Array_sort
      sorted_wrt_map_populate_tags sorted_Array_sort)

lemma getQuestionsByQuery_unanswered:
  "mset (getQuestionsByQuery db query (Some ''unanswered''))
     = mset (map (populate_tags db)
               (filter (\<lambda>q. matches query q \<and> answers q = []) (Question db)))
   \<and> sorted_wrt (\<lambda>a b. ask_date_time b \<le> ask_date_time a)
        (getQuestionsByQuery db query (Some ''unanswered''))"
  by (simp add: getQuestionsByQuery_def sort_ask_date_time_desc_def mset_Array_sort
      sorted_wrt_map_populate_tags sorted_Array_sort)

lemma getQuestionsByQuery_active_mset:
  "mset (getQuestionsByQuery db query (Some ''active''))
     = mset (map (populate_answers db \<circ> populate_tags db) (filter (matches query) (Question db)))"
  by (simp add: getQuestionsByQuery_def activityCompare_eq mset_Array_sort del: mset_map)

lemma getQuestionsByQuery_active_sorted:
  "sorted_wrt (\<lambda>a b. mostRecentActivity b \<le> mostRecentActivity a)
     (getQuestionsByQuery db query (Some ''active''))"
  by (simp add: getQuestionsByQuery_def activityCompare_eq sorted_Array_sort)

lemma getQuestionsByQuery_active_stable:
  "filter (\<lambda>q. mostRecentActivity q = k) (getQuestionsByQuery db query (Some ''active''))
     = filter (\<lambda>q. mostRecentActivity q = k)
         (map (populate_answers db \<circ> populate_tags db) (filter (matches query) (Question db)))"
  by (simp add: getQuestionsByQuery_def activityCompare_eq stable_Array_sort)

lemma getQuestions_no_search:
  "getQuestions ps db order None = Value (getQuestionsByQuery db empty_query order)"
  by (simp add: getQuestions_def createStrategy_def getQuestionsByOrder_eq)

text \<open>
  C2: under order key \<^verbatim>\<open>active\<close> the result holds every question that matches the query
  (whatever its number of answers), each with its answers populated; it is sorted by
  activity timestamp, latest first; questions with equal activity timestamps keep the order
  in which the store returned them.  Without a search string the query is the empty one,
  which every question matches, so every question of the store is returned.
\<close>

theorem active_order:
  "mset (getQuestionsByQuery db query (Some ''active''))
     = mset (map (populate_answers db \<circ> populate_tags db) (filter (matches query) (Question db)))
   \<and> sorted_wrt (\<lambda>a b. mostRecentActivity b \<le> mostRecentActivity a)
        (getQuestionsByQuery db query (Some ''active''))
   \<and> (\<forall>k. filter (\<lambda>q. mostRecentActivity q = k) (getQuestionsByQuery db query (Some ''active''))
          = filter (\<lambda>q. mostRecentActivity q = k)
              (map (populate_answers db \<circ> populate_tags db)
                 (filter (matches query) (Question db))))
   \<and> getQuestions ps db (Some ''active'') None
       = Value (getQuestionsByQuery db empty_query (Some ''active''))
   \<and> mset (getQuestionsByQuery db empty_query (Some ''active''))
       = mset (map (populate_answers db \<circ> populate_tags db) (Question db))"
proof -
  have "filter (matches empty_query) (Question db) = Question db"
    by (simp add: matches_empty_query)
  then have "mset (getQuestionsByQuery db empty_query (Some ''active''))
       = mset (map (populate_answers db \<circ> populate_tags db) (Question db))"
    using getQuestionsByQuery_active_mset [of db empty_query] by simp
  then show ?thesis
    using getQuestionsByQuery_active_mset getQuestionsByQuery_active_sorted
      getQuestionsByQuery_active_stable getQuestions_no_search
    by blast
qed

theorem active_order_witness:
  "map q_id (getQuestionsByQuery example_db empty_query (Some ''active'')) = [1, 3, 2]
   \<and> map mostRecentActivity (getQuestionsByQuery example_db empty_query (Some ''active''))
       = [300, 250, 200]
   \<and> sorted_wrt (\<lambda>a b. mostRecentActivity b \<le> mostRecentActivity a)
        (getQuestionsByQuery example_db empty_query (Some ''active''))
   \<and> getQuestions example_titles example_db (Some ''active'') None
       = Value (getQuestionsByQuery example_db empty_query (Some ''active''))"
proof -
  have "map q_id (getQuestionsByQuery example_db empty_query (Some ''active'')) = [1, 3, 2]"
    by code_simp
  moreover
  have "map mostRecentActivity (getQuestionsByQuery example_db empty_query (Some ''active''))
       = [300, 250, 200]"
    by code_simp
  ultimately show ?thesis
    using active_order [of example_db empty_query example_titles] by blast
qed

text \<open>
  C7: under order key \<^verbatim>\<open>unanswered\<close> the result holds exactly the questions that match the
  query and have an empty \<^verbatim>\<open>answers\<close> array; under \<^verbatim>\<open>newest\<close>, any other key and no key
  (every order but \<^verbatim>\<open>unanswered\<close> and \<^verbatim>\<open>active\<close>) it holds exactly the questions that match
  the query.  In both cases it is sorted by creation timestamp, latest first.  The path
  without a search string is the same with the empty query, which every question matches.
\<close>

theorem unanswered_and_newest_order:
  "mset (getQuestionsByQuery db query (Some ''unanswered''))
     = mset (map (populate_tags db)
               (filter (\<lambda>q. matches query q \<and> answers q = []) (Question db)))
   \<and> sorted_wrt (\<lambda>a b. ask_date_time b \<le> ask_date_time a)
        (getQuestionsByQuery db query (Some ''unanswered''))
   \<and> (order \<noteq> Some ''unanswered'' \<and> order \<noteq> Some ''active'' \<longrightarrow>
        mset (getQuestionsByQuery db query order)
          = mset (map (populate_tags db) (filter (matches query) (Question db)))
        \<and> sorted_wrt (\<lambda>a b. ask_date_time b \<le> ask_date_time a)
             (getQuestionsByQuery db query order))
   \<and> getQuestionsByOrder db order = getQuestionsByQuery db empty_query order
   \<and> (\<forall>q. matches empty_query q)"
  using getQuestionsByQuery_unanswered [of db query] getQuestionsByQuery_newest [of order db query]
    getQuestionsByOrder_eq [of db order] matches_empty_query
  by blast

theorem unanswered_and_newest_order_witness:
  "map q_id (getQuestionsByQuery example_db empty_query (Some ''unanswered'')) = [3, 2]
   \<and> map q_id (getQuestionsByQuery example_db empty_query (Some ''newest'')) = [3, 2, 1]
   \<and> map q_id (getQuestionsByOrder example_db None) = [3, 2, 1]
   \<and> map q_id (getQuestionsByOrder example_db (Some ''votes'')) = [3, 2, 1]
   \<and> sorted_wrt (\<lambda>a b. ask_date_time b \<le> ask_date_time a)
        (getQuestionsByQuery example_db empty_query (Some ''newest''))"
proof -
  have o: "Some ''newest'' \<noteq> Some ''unanswered'' \<and> Some ''newest'' \<noteq> Some ''active''"
    by simp
  have "map q_id (getQuestionsByQuery example_db empty_query (Some ''unanswered'')) = [3, 2]"
    by code_simp
  moreover
  have "map q_id (getQuestionsByQuery example_db empty_query (Some ''newest'')) = [3, 2, 1]"
    by code_simp
  moreover
  have "map q_id (getQuestionsByOrder example_db None) = [3, 2, 1]"
    by code_simp
  moreover
  have "map q_id (getQuestionsByOrder example_db (Some ''votes'')) = [3, 2, 1]"
    by code_simp
  ultimately show ?thesis
    using o unanswered_and_newest_order [of example_db empty_query "Some ''newest''"]
    by blast
qed

subsection \<open>Tag resolution\<close>

lemma findTagIds_empty: "findTagIds db [] = Some []"
  by (simp add: findTagIds_def)

lemma findTagIds_no_match:
  "tagTerms \<noteq> [] \<Longrightarrow> \<forall>t\<in>set (Tag db). name t \<notin> set tagTerms \<Longrightarrow>
   findTagIds db tagTerms = None"
  by (simp add: findTagIds_def filter_empty_conv)

lemma findTagIds_match:
  "tagTerms \<noteq> [] \<Longrightarrow> \<exists>t\<in>set (Tag db). name t \<in> set tagTerms \<Longrightarrow>
   findTagIds db tagTerms = Some (map tag_id (filter (\<lambda>t. name t \<in> set tagTerms) (Tag db)))"
  by (auto simp: findTagIds_def filter_empty_conv)

lemma execute_no_such_tag:
  "findTagIds db tagTerms = None \<Longrightarrow>
   execute ps db (RegularSearchStrategy tagTerms regularTerms) order = Value []"
  by simp

lemma buildQuery_no_filter:
  "buildQuery regularTerms (Some []) = Value qu \<Longrightarrow> query_tags qu = None"
  by (auto simp: buildQuery_def empty_query_def Let_def split: if_splits outcome.splits)

lemma execute_regular:
  "findTagIds db tagTerms = Some ids \<Longrightarrow>
   execute ps db (RegularSearchStrategy tagTerms regularTerms) order
     = map_outcome (\<lambda>qu. getQuestionsByQuery db qu order) (buildQuery regularTerms (Some ids))"
  by (simp split: outcome.splits)

lemma buildQuery_tag_clause:
  "ids \<noteq> [] \<Longrightarrow> buildQuery regularTerms (Some ids) = Value qu \<Longrightarrow> query_tags qu = Some ids"
  by (auto simp: buildQuery_def empty_query_def Let_def split: if_splits outcome.splits)

lemma buildQuery_tags_only:
  "ids \<noteq> [] \<Longrightarrow> buildQuery [] (Some ids) = Value \<lparr>query_tags = Some ids, query_or = None\<rparr>"
  by (simp add: buildQuery_def empty_query_def)

lemma buildQuery_nothing: "buildQuery [] (Some []) = Value empty_query"
  by (simp add: buildQuery_def)

lemma findTagIds_match_nonempty:
  "\<exists>t\<in>set (Tag db). name t \<in> set tagTerms \<Longrightarrow>
   map tag_id (filter (\<lambda>t. name t \<in> set tagTerms) (Tag db)) \<noteq> []"
  by (auto simp: filter_empty_conv)

text \<open>
  C3: tag resolution has three outcomes, and the strategy treats each in its own way.
  No tag term: the empty identifier list; the query gets no tag clause and the strategy
  returns what the repository finds for the query built from the plain terms alone (for no
  plain terms either, the empty query).  Tag terms of which none is the name of a stored
  tag: \<^verbatim>\<open>null\<close> (\<open>None\<close>), and the strategy returns the empty list, whatever the order and
  the plain terms.  Tag terms of which at least one is the name of a stored tag: the
  identifiers of exactly the stored tags whose name is among the terms, a non-empty list;
  the query gets the tag clause over these identifiers and the strategy returns what the
  repository finds for it.
\<close>

theorem tag_resolution_outcomes:
  "findTagIds db [] = Some []
   \<and> (\<forall>qu. buildQuery regularTerms (Some []) = Value qu \<longrightarrow> query_tags qu = None)
   \<and> execute ps db (RegularSearchStrategy [] regularTerms) order
       = map_outcome (\<lambda>qu. getQuestionsByQuery db qu order) (buildQuery regularTerms (Some []))
   \<and> execute ps db (RegularSearchStrategy [] []) order
       = Value (getQuestionsByQuery db empty_query order)
   \<and> (tagTerms \<noteq> [] \<and> (\<forall>t\<in>set (Tag db). name t \<notin> set tagTerms) \<longrightarrow>
        findTagIds db tagTerms = None
        \<and> execute ps db (RegularSearchStrategy tagTerms regularTerms) order = Value [])
   \<and> (tagTerms \<noteq> [] \<and> (\<exists>t\<in>set (Tag db). name t \<in> set tagTerms) \<longrightarrow>
        findTagIds db tagTerms
          = Some (map tag_id (filter (\<lambda>t. name t \<in> set tagTerms) (Tag db)))
        \<and> map tag_id (filter (\<lambda>t. name t \<in> set tagTerms) (Tag db)) \<noteq> []
        \<and> (\<forall>qu. buildQuery regularTerms
                    (Some (map tag_id (filter (\<lambda>t. name t \<in> set tagTerms) (Tag db)))) = Value qu
               \<longrightarrow> query_tags qu
                     = Some (map tag_id (filter (\<lambda>t. name t \<in> set tagTerms) (Tag db))))
        \<and> execute ps db (RegularSearchStrategy tagTerms regularTerms) order
            = map_outcome (\<lambda>qu. getQuestionsByQuery db qu order)
                (buildQuery regularTerms
                   (Some (map tag_id (filter (\<lambda>t. name t \<in> set tagTerms) (Tag db)))))
        \<and> execute ps db (RegularSearchStrategy tagTerms []) order
            = Value (getQuestionsByQuery db
                \<lparr>query_tags = Some (map tag_id (filter (\<lambda>t. name t \<in> set tagTerms) (Tag db))),
                 query_or = None\<rparr> order))"
proof -
  let ?ids = "map tag_id (filter (\<lambda>t. name t \<in> set tagTerms) (Tag db))"
  have a: "execute ps db (RegularSearchStrategy [] regularTerms) order
       = map_outcome (\<lambda>qu. getQuestionsByQuery db qu order) (buildQuery regularTerms (Some []))"
    using findTagIds_empty by (rule execute_regular)
  have b: "execute ps db (RegularSearchStrategy [] []) order
       = Value (getQuestionsByQuery db empty_query order)"
    using execute_regular [OF findTagIds_empty, of ps db "[]" order]
    by (simp add: buildQuery_nothing)
  have c: "tagTerms \<noteq> [] \<and> (\<forall>t\<in>set (Tag db). name t \<notin> set tagTerms) \<longrightarrow>
        findTagIds db tagTerms = None
        \<and> execute ps db (RegularSearchStrategy tagTerms regularTerms) order = Value []"
    using findTagIds_no_match [of tagTerms db] execute_no_such_tag [of db tagTerms]
    by blast
  have d: "findTagIds db tagTerms = Some ?ids \<and> ?ids \<noteq> []
        \<and> (\<forall>qu. buildQuery regularTerms (Some ?ids) = Value qu \<longrightarrow> query_tags qu = Some ?ids)
        \<and> execute ps db (RegularSearchStrategy tagTerms regularTerms) order
            = map_outcome (\<lambda>qu. getQuestionsByQuery db qu order)
                (buildQuery regularTerms (Some ?ids))
        \<and> execute ps db (RegularSearchStrategy tagTerms []) order
            = Value (getQuestionsByQuery db \<lparr>query_tags = Some ?ids, query_or = None\<rparr> order)"
    if m: "tagTerms \<noteq> [] \<and> (\<exists>t\<in>set (Tag db). name t \<in> set tagTerms)"
  proof -
    from m have f: "findTagIds db tagTerms = Some ?ids"
      using findTagIds_match [of tagTerms db] by blast
    from m have n: "?ids \<noteq> []"
      using findTagIds_match_nonempty [of db tagTerms] by blast
    have "execute ps db (RegularSearchStrategy tagTerms []) order
            = Value (getQuestionsByQuery db \<lparr>query_tags = Some ?ids, query_or = None\<rparr> order)"
      using execute_regular [OF f, of ps "[]" order] by (simp add: buildQuery_tags_only [OF n])
    with f n show ?thesis
      using buildQuery_tag_clause [OF n, of regularTerms] execute_regular [OF f, of ps regularTerms order]
      by blast
  qed
  from a b c d show ?thesis
    using findTagIds_empty buildQuery_no_filter by blast
qed

theorem tag_resolution_outcomes_witness:
  "findTagIds example_db [''nonexistent''] = None
   \<and> execute example_titles example_db (RegularSearchStrategy [''nonexistent''] [''json''])
        (Some ''active'') = Value []
   \<and> findTagIds example_db [''javascript'', ''python''] = Some [1]
   \<and> map_outcome (map q_id)
        (execute example_titles example_db (RegularSearchStrategy [''javascript'', ''python''] [])
           (Some ''newest'')) = Value [3, 1]
   \<and> map_outcome (map q_id)
        (execute example_titles example_db (RegularSearchStrategy [] []) (Some ''newest''))
       = Value [3, 2, 1]
   \<and> map_outcome (map q_id)
        (execute example_titles example_db (RegularSearchStrategy [] [''hook'']) (Some ''newest''))
       = Value [2]"
proof -
  have n: "[''nonexistent''] \<noteq> [] \<and> (\<forall>t\<in>set (Tag example_db). name t \<notin> set [''nonexistent''])"
    by (simp add: example_db_def)
  have p: "[''javascript'', ''python''] \<noteq> []
           \<and> (\<exists>t\<in>set (Tag example_db). name t \<in> set [''javascript'', ''python''])"
    by (simp add: example_db_def)
  have f: "map tag_id (filter (\<lambda>t. name t \<in> set [''javascript'', ''python'']) (Tag example_db)) = [1]"
    by (simp add: example_db_def)
  have q1: "map q_id (getQuestionsByQuery example_db \<lparr>query_tags = Some [1], query_or = None\<rparr>
              (Some ''newest'')) = [3, 1]"
    by code_simp
  have q2: "map q_id (getQuestionsByQuery example_db empty_query (Some ''newest'')) = [3, 2, 1]"
    by code_simp
  have q3: "map_outcome (map q_id)
              (map_outcome (\<lambda>qu. getQuestionsByQuery example_db qu (Some ''newest''))
                 (buildQuery [''hook''] (Some []))) = Value [2]"
    by code_simp
  note t1 = tag_resolution_outcomes
      [of example_db "[''json'']" example_titles "Some ''active''" "[''nonexistent'']"]
  note t2 = tag_resolution_outcomes
      [of example_db "[]" example_titles "Some ''newest''" "[''javascript'', ''python'']"]
  note t3 = tag_resolution_outcomes
      [of example_db "[''hook'']" example_titles "Some ''newest''" "[]"]
  from n t1 have r1:
    "findTagIds example_db [''nonexistent''] = None
     \<and> execute example_titles example_db (RegularSearchStrategy [''nonexistent''] [''json''])
          (Some ''active'') = Value []"
    by blast
  from p t2 have
    "findTagIds example_db [''javascript'', ''python'']
       = Some (map tag_id
           (filter (\<lambda>t. name t \<in> set [''javascript'', ''python'']) (Tag example_db)))
     \<and> execute example_titles example_db (RegularSearchStrategy [''javascript'', ''python''] [])
          (Some ''newest'')
        = Value (getQuestionsByQuery example_db
            \<lparr>query_tags = Some (map tag_id
               (filter (\<lambda>t. name t \<in> set [''javascript'', ''python'']) (Tag example_db))),
             query_or = None\<rparr>
            (Some ''newest''))"
    by blast
  then have r2:
    "findTagIds example_db [''javascript'', ''python''] = Some [1]
     \<and> execute example_titles example_db (RegularSearchStrategy [''javascript'', ''python''] [])
          (Some ''newest'')
        = Value (getQuestionsByQuery example_db \<lparr>query_tags = Some [1], query_or = None\<rparr>
            (Some ''newest''))"
    by (simp only: f)
  then have r2':
    "map_outcome (map q_id)
        (execute example_titles example_db (RegularSearchStrategy [''javascript'', ''python''] [])
           (Some ''newest'')) = Value [3, 1]"
    by (simp only: outcome.map q1)
  from t3 have
    "execute example_titles example_db (RegularSearchStrategy [] []) (Some ''newest'')
       = Value (getQuestionsByQuery example_db empty_query (Some ''newest''))"
    by blast
  then have r3:
    "map_outcome (map q_id)
        (execute example_titles example_db (RegularSearchStrategy [] []) (Some ''newest''))
       = Value [3, 2, 1]"
    by (simp only: outcome.map q2)
  from t3 have
    "execute example_titles example_db (RegularSearchStrategy [] [''hook'']) (Some ''newest'')
       = map_outcome (\<lambda>qu. getQuestionsByQuery example_db qu (Some ''newest''))
           (buildQuery [''hook''] (Some []))"
    by blast
  then have r4:
    "map_outcome (map q_id)
        (execute example_titles example_db (RegularSearchStrategy [] [''hook'']) (Some ''newest''))
       = Value [2]"
    by (simp only: q3)
  from r1 r2 r2' r3 r4 show ?thesis
    by blast
qed

subsection \<open>Strategy selection\<close>

lemma parseSearchTerms_empty:
  "parseSearchTerms [] = \<lparr>tagSearchTerms = [], regularSearchTerms = [[]]\<rparr>"
  by (simp add: parseSearchTerms_def is_tag_token_def startsWith_def toLowerCase_def)

lemma createStrategy_special_iff:
  "createStrategy (Some s) = SpecialSearchStrategy \<longleftrightarrow>
   isSpecialSearch (regularSearchTerms (parseSearchTerms s)) (tagSearchTerms (parseSearchTerms s))"
proof (cases "s = []")
  case True
  then show ?thesis
    by (simp add: createStrategy_def parseSearchTerms_empty isSpecialSearch_def)
next
  case False
  then show ?thesis
    by (simp add: createStrategy_def Let_def)
qed

lemma createStrategy_absent: "createStrategy None = DefaultSearchStrategy"
  by (simp add: createStrategy_def)

lemma createStrategy_empty: "createStrategy (Some []) = DefaultSearchStrategy"
  by (simp add: createStrategy_def)

lemma getQuestions_special:
  "createStrategy search = SpecialSearchStrategy \<Longrightarrow>
   getQuestions ps db order search
     = Value (List.map_filter (\<lambda>q. q)
         [findQuestionByTitle db (Q3_DESC ps), findQuestionByTitle db (Q2_DESC ps),
          findQuestionByTitle db (Q1_DESC ps)])"
  by (simp add: getQuestions_def Let_def)

lemma length_map_filter_3: "length (List.map_filter (\<lambda>q. q) [a, b, c]) \<le> 3"
  by (simp add: List.map_filter_simps split: option.splits)

text \<open>
  C4: the special strategy is chosen exactly for the search strings whose plain terms
  contain \<^verbatim>\<open>40\<close>, \<^verbatim>\<open>million\<close> and \<^verbatim>\<open>documents\<close> and whose tag terms contain
  \<^verbatim>\<open>javascript\<close>, in whatever order and among whatever other terms; for an absent search
  string and for every other search string it is not chosen.  When it is chosen,
  \<^verbatim>\<open>getQuestions\<close> returns, whatever the order key, the questions found under the third,
  the second and the first title, in this order, leaving out the titles under which no
  question is stored: at most three questions.
\<close>

theorem special_search:
  "(createStrategy search = SpecialSearchStrategy \<longleftrightarrow>
      (\<exists>s. search = Some s
          \<and> {''40'', ''million'', ''documents''} \<subseteq> set (regularSearchTerms (parseSearchTerms s))
          \<and> ''javascript'' \<in> set (tagSearchTerms (parseSearchTerms s))))
   \<and> (createStrategy search = SpecialSearchStrategy \<longrightarrow>
        getQuestions ps db order search
          = Value (List.map_filter (\<lambda>q. q)
              [findQuestionByTitle db (Q3_DESC ps), findQuestionByTitle db (Q2_DESC ps),
               findQuestionByTitle db (Q1_DESC ps)])
        \<and> length (List.map_filter (\<lambda>q. q)
              [findQuestionByTitle db (Q3_DESC ps), findQuestionByTitle db (Q2_DESC ps),
               findQuestionByTitle db (Q1_DESC ps)]) \<le> 3)"
proof -
  have "createStrategy search = SpecialSearchStrategy \<longleftrightarrow>
      (\<exists>s. search = Some s
          \<and> {''40'', ''million'', ''documents''} \<subseteq> set (regularSearchTerms (parseSearchTerms s))
          \<and> ''javascript'' \<in> set (tagSearchTerms (parseSearchTerms s)))"
  proof (cases search)
    case None
    then show ?thesis by (simp add: createStrategy_absent)
  next
    case (Some s)
    then show ?thesis
      using createStrategy_special_iff [of s] by (simp add: isSpecialSearch_def)
  qed
  then show ?thesis
    using getQuestions_special [of search ps db order] length_map_filter_3
    by blast
qed

theorem special_search_witness:
  "createStrategy (Some ''documents [JavaScript] 40 Million'') = SpecialSearchStrategy
   \<and> map_outcome (map q_id)
        (getQuestions example_titles example_db (Some ''active'')
           (Some ''documents [JavaScript] 40 Million'')) = Value [3, 1]
   \<and> createStrategy (Some ''40 million [javascript]'') \<noteq> SpecialSearchStrategy"
proof -
  have r: "regularSearchTerms (parseSearchTerms ''documents [JavaScript] 40 Million'')
             = [''documents'', ''40'', ''million'']"
    by code_simp
  have t: "tagSearchTerms (parseSearchTerms ''documents [JavaScript] 40 Million'') = [''javascript'']"
    by code_simp
  have r': "regularSearchTerms (parseSearchTerms ''40 million [javascript]'') = [''40'', ''million'']"
    by code_simp
  have s: "createStrategy (Some ''documents [JavaScript] 40 Million'') = SpecialSearchStrategy"
    using special_search [of "Some ''documents [JavaScript] 40 Million''"] r t by simp
  have l: "map q_id (List.map_filter (\<lambda>q. q)
              [findQuestionByTitle example_db (Q3_DESC example_titles),
               findQuestionByTitle example_db (Q2_DESC example_titles),
               findQuestionByTitle example_db (Q1_DESC example_titles)]) = [3, 1]"
    by code_simp
  have "map_outcome (map q_id)
        (getQuestions example_titles example_db (Some ''active'')
           (Some ''documents [JavaScript] 40 Million'')) = Value [3, 1]"
    using special_search
      [of "Some ''documents [JavaScript] 40 Million''" example_titles example_db "Some ''active''"]
      s l
    by simp
  moreover have "createStrategy (Some ''40 million [javascript]'') \<noteq> SpecialSearchStrategy"
    using special_search [of "Some ''40 million [javascript]''"] r' by simp
  ultimately show ?thesis using s by blast
qed

lemma q_id_populate_tags: "q_id (populate_tags db q) = q_id q"
  by (simp add: populate_tags_def)

lemma q_id_populate_answers: "q_id (populate_answers db q) = q_id q"
  by (simp add: populate_answers_def)

lemma getQuestionsByOrder_ids:
  assumes "order \<noteq> Some ''unanswered''"
  shows "mset (map q_id (getQuestionsByOrder db order)) = mset (map q_id (Question db))"
proof -
  have m: "mset (map q_id (Array_sort (\<lambda>a b. key b - key a) xs)) = mset (map q_id xs)"
    for key :: "question \<Rightarrow> int" and xs
    using mset_Array_sort [of key xs] by (metis mset_map)
  from assms show ?thesis
    by (simp add: getQuestionsByOrder_def getNewestQuestions_def getActiveQuestions_def
        sort_ask_date_time_desc_def activityCompare_eq m q_id_populate_tags
        q_id_populate_answers comp_def del: mset_map)
qed

text \<open>
  C10: for the empty search string \<^verbatim>\<open>getQuestions\<close> does what it does for an absent one:
  the default strategy is chosen and the result is that of \<^verbatim>\<open>getQuestionsByOrder\<close> with
  the requested order key.  No question is left out because of the search: under every
  order key but \<^verbatim>\<open>unanswered\<close> the result holds every stored question once.
\<close>

theorem empty_search_is_default:
  "createStrategy (Some []) = DefaultSearchStrategy
   \<and> getQuestions ps db order (Some []) = getQuestions ps db order None
   \<and> getQuestions ps db order (Some []) = Value (getQuestionsByOrder db order)
   \<and> (order \<noteq> Some ''unanswered'' \<longrightarrow>
        mset (map q_id (getQuestionsByOrder db order)) = mset (map q_id (Question db)))"
  using getQuestionsByOrder_ids [of order db]
  by (simp add: getQuestions_def createStrategy_empty createStrategy_absent)

theorem empty_search_is_default_witness:
  "map_outcome (map q_id) (getQuestions example_titles example_db (Some ''active'') (Some []))
     = Value [1, 3, 2]
   \<and> getQuestions example_titles example_db (Some ''active'') (Some [])
       = getQuestions example_titles example_db (Some ''active'') None
   \<and> mset (map q_id (getQuestionsByOrder example_db (Some ''active'')))
       = mset (map q_id (Question example_db))"
proof -
  note d = empty_search_is_default [of example_titles example_db "Some ''active''"]
  have o: "Some ''active'' \<noteq> Some ''unanswered''"
    by simp
  have i: "map q_id (getQuestionsByOrder example_db (Some ''active'')) = [1, 3, 2]"
    by code_simp
  from d have "getQuestions example_titles example_db (Some ''active'') (Some [])
      = Value (getQuestionsByOrder example_db (Some ''active''))"
    by blast
  then have "map_outcome (map q_id)
      (getQuestions example_titles example_db (Some ''active'') (Some [])) = Value [1, 3, 2]"
    by (simp add: i)
  then show ?thesis
    using o d by blast
qed

subsection \<open>The search term parser\<close>

lemma split_nonempty: "split sep s \<noteq> []"
  by (induction s) (auto split: list.splits)

lemma join_split: "join sep (split sep s) = s"
proof (induction s)
  case Nil
  show ?case by simp
next
  case (Cons c cs)
  obtain t ts where ts: "split sep cs = t # ts"
    using split_nonempty [of sep cs] by (cases "split sep cs") auto
  show ?case
  proof (cases "c = sep")
    case True
    then show ?thesis using Cons ts by simp
  next
    case False
    then show ?thesis using Cons ts by (cases ts) simp_all
  qed
qed

lemma split_no_sep: "t \<in> set (split sep s) \<Longrightarrow> sep \<notin> set t"
proof (induction s arbitrary: t)
  case Nil
  then show ?case by simp
next
  case (Cons c cs)
  then show ?case
    by (cases "split sep cs") (auto split: if_splits)
qed

lemma split_no_occurrence: "sep \<notin> set s \<Longrightarrow> split sep s = [s]"
  by (induction s) auto










subsection \<open>Tag names and letter case\<close>

lemma toLowerCase_char_idem: "toLowerCase_char (toLowerCase_char c) = toLowerCase_char c"
  by (auto simp: toLowerCase_char_def Let_def)

lemma toLowerCase_idem: "toLowerCase (toLowerCase s) = toLowerCase s"
  by (simp add: toLowerCase_def toLowerCase_char_idem)

lemma tagSearchTerms_lower:
  "x \<in> set (tagSearchTerms (parseSearchTerms s)) \<Longrightarrow> toLowerCase x = x"
  by (auto simp: parseSearchTerms_def Let_def toLowerCase_idem)

lemma parseSearchTerms_single_tag:
  "CHR '' '' \<notin> set T \<Longrightarrow>
   tagSearchTerms (parseSearchTerms (CHR ''['' # T @ [CHR '']''])) = [toLowerCase T]"
  by (simp add: parseSearchTerms_def Let_def split_no_occurrence is_tag_token_def startsWith_def
      endsWith_def slice_1_m1_def)

lemma findTagIds_resolves:
  assumes "t \<in> set (Tag db)" "distinct (map tag_id (Tag db))"
  shows "(\<exists>ids. findTagIds db tagTerms = Some ids \<and> tag_id t \<in> set ids)
           \<longleftrightarrow> name t \<in> set tagTerms"
proof
  assume "\<exists>ids. findTagIds db tagTerms = Some ids \<and> tag_id t \<in> set ids"
  then obtain t' where "t' \<in> set (Tag db)" "name t' \<in> set tagTerms" "tag_id t' = tag_id t"
    by (auto simp: findTagIds_def Let_def split: if_splits)
  moreover from assms this(1,3) have "t' = t"
    by (meson distinct_map inj_onD)
  ultimately show "name t \<in> set tagTerms" by simp
next
  assume n: "name t \<in> set tagTerms"
  with assms(1) have "filter (\<lambda>t. name t \<in> set tagTerms) (Tag db) \<noteq> []"
    by (auto simp: filter_empty_conv)
  with n assms(1) show "\<exists>ids. findTagIds db tagTerms = Some ids \<and> tag_id t \<in> set ids"
    by (auto simp: findTagIds_def Let_def)
qed

text \<open>
  C9 as the specification states it fails: the store holds a tag named \<^verbatim>\<open>React\<close>; the
  search term \<^verbatim>\<open>[React]\<close> is lower-cased to \<^verbatim>\<open>react\<close>, which names that tag up to letter
  case, and the lookup finds no tag.
\<close>

theorem tag_lookup_stored_case_counterexample:
  "\<lparr>tag_id = 2, name = ''React''\<rparr> \<in> set (Tag example_db)
   \<and> tagSearchTerms (parseSearchTerms ''[React]'') = [toLowerCase ''React'']
   \<and> findTagIds example_db (tagSearchTerms (parseSearchTerms ''[React]'')) = None"
  by code_simp

text \<open>
  C9, amended: the lookup is insensitive to the letter case of the search term only.  The
  parser lower-cases every tag term, and the store compares the lower-cased term with the
  stored names exactly.  So, with identifiers unique, a stored tag is resolved iff its
  stored name is one of the lower-cased terms: a tag stored in lower case is found under
  every casing of the search term, and a tag whose stored name has an upper-case letter is
  found under none.
\<close>

theorem tag_lookup_exact_on_lowercased_term:
  assumes "t \<in> set (Tag db)" and "distinct (map tag_id (Tag db))"
  shows
    "((\<exists>ids. findTagIds db (tagSearchTerms (parseSearchTerms s)) = Some ids \<and> tag_id t \<in> set ids)
        \<longleftrightarrow> name t \<in> set (tagSearchTerms (parseSearchTerms s)))
     \<and> (\<forall>x\<in>set (tagSearchTerms (parseSearchTerms s)). toLowerCase x = x)
     \<and> (toLowerCase (name t) \<noteq> name t \<longrightarrow>
          \<not> (\<exists>ids. findTagIds db (tagSearchTerms (parseSearchTerms s)) = Some ids
                  \<and> tag_id t \<in> set ids))
     \<and> (CHR '' '' \<notin> set T \<longrightarrow>
          tagSearchTerms (parseSearchTerms (CHR ''['' # T @ [CHR '']''])) = [toLowerCase T])"
proof -
  have r: "(\<exists>ids. findTagIds db (tagSearchTerms (parseSearchTerms s)) = Some ids \<and> tag_id t \<in> set ids)
        \<longleftrightarrow> name t \<in> set (tagSearchTerms (parseSearchTerms s))"
    using assms by (rule findTagIds_resolves)
  have l: "\<forall>x\<in>set (tagSearchTerms (parseSearchTerms s)). toLowerCase x = x"
    using tagSearchTerms_lower by blast
  from r l have "toLowerCase (name t) \<noteq> name t \<longrightarrow>
          \<not> (\<exists>ids. findTagIds db (tagSearchTerms (parseSearchTerms s)) = Some ids
                  \<and> tag_id t \<in> set ids)"
    by blast
  with r l show ?thesis
    using parseSearchTerms_single_tag [of T] by blast
qed

theorem tag_lookup_exact_on_lowercased_term_witness:
  "\<lparr>tag_id = 1, name = ''javascript''\<rparr> \<in> set (Tag example_db)
   \<and> distinct (map tag_id (Tag example_db))
   \<and> tagSearchTerms (parseSearchTerms ''[JavaScript]'') = [''javascript'']
   \<and> (\<exists>ids. findTagIds example_db (tagSearchTerms (parseSearchTerms ''[JavaScript]'')) = Some ids
            \<and> tag_id \<lparr>tag_id = 1, name = ''javascript''\<rparr> \<in> set ids)"
proof -
  have m: "\<lparr>tag_id = 1, name = ''javascript''\<rparr> \<in> set (Tag example_db)"
    by (simp add: example_db_def)
  have d: "distinct (map tag_id (Tag example_db))"
    by (simp add: example_db_def)
  have p: "tagSearchTerms (parseSearchTerms ''[JavaScript]'') = [''javascript'']"
    by code_simp
  have "\<exists>ids. findTagIds example_db (tagSearchTerms (parseSearchTerms ''[JavaScript]'')) = Some ids
            \<and> tag_id \<lparr>tag_id = 1, name = ''javascript''\<rparr> \<in> set ids"
    using tag_lookup_exact_on_lowercased_term [OF m d, of "''[JavaScript]''"] p
    by simp
  with m d p show ?thesis by blast
qed

subsection \<open>The query predicate\<close>

lemma match_here_prefix: "match_here r s \<longleftrightarrow> prefix (toLowerCase r) (toLowerCase s)"
  by (induction r s rule: match_here.induct) (auto simp: toLowerCase_def)

lemma regexp_test_sublist: "regexp_test r s \<longleftrightarrow> sublist (toLowerCase r) (toLowerCase s)"
proof (induction s)
  case Nil
  show ?case by (cases r) (simp_all add: toLowerCase_def)
next
  case (Cons c cs)
  have "sublist (toLowerCase r) (toLowerCase (c # cs))
      \<longleftrightarrow> prefix (toLowerCase r) (toLowerCase (c # cs)) \<or> sublist (toLowerCase r) (toLowerCase cs)"
    by (simp add: toLowerCase_def sublist_Cons_right)
  then show ?case using Cons by (simp add: match_here_prefix)
qed

lemma map_RegExp_i_literal: "list_all literal_term ts \<Longrightarrow> map_RegExp_i ts = Value ts"
  by (induction ts) (simp_all add: RegExp_i_def literal_term_def)

text \<open>
  For plain terms without regular-expression syntax characters the query is built, and a
  question matches it iff its tag references meet the given identifiers (when there are
  any) and its title or body contains one of the plain terms, letter case ignored (when
  there are any); with neither identifiers nor plain terms every question matches.
\<close>

lemma buildQuery_literal_terms:
  assumes "list_all literal_term regularTerms"
  shows "\<exists>qu. buildQuery regularTerms (Some tagIds) = Value qu \<and>
     (\<forall>q. matches qu q \<longleftrightarrow>
        (tagIds = [] \<or> tag_ref_id ` set (tags q) \<inter> set tagIds \<noteq> {})
        \<and> (regularTerms = [] \<or>
            (\<exists>t\<in>set regularTerms. sublist (toLowerCase t) (toLowerCase (title q))
                                 \<or> sublist (toLowerCase t) (toLowerCase (qtext q)))))"
proof (cases "regularTerms = []")
  case True
  then show ?thesis
    by (cases tagIds) (auto simp: buildQuery_def empty_query_def matches_def list_ex_iff)
next
  case False
  then show ?thesis using map_RegExp_i_literal [OF assms]
    by (cases tagIds)
      (auto simp: buildQuery_def empty_query_def matches_def list_ex_iff regexp_test_sublist)
qed

text \<open>
  C6 at the search string \<^verbatim>\<open>[\<close>: the parser makes the lone bracket the one plain term,
  tag resolution returns the empty identifier list, and \<^verbatim>\<open>buildQuery\<close> hands the term to
  \<^verbatim>\<open>new RegExp\<close> as a pattern, which throws \<^verbatim>\<open>SyntaxError\<close> for the unterminated character
  class.  No predicate is built, and \<^verbatim>\<open>getQuestions\<close> fails, where the specification
  has a text clause that asks for a title or body containing the term.
\<close>

theorem text_clause_lone_bracket:
  "parseSearchTerms ''['' = \<lparr>tagSearchTerms = [], regularSearchTerms = [''['']\<rparr>
   \<and> findTagIds db [] = Some []
   \<and> buildQuery [''[''] (Some []) = SyntaxError
   \<and> getQuestions ps db order (Some ''['') = SyntaxError"
proof -
  have p: "parseSearchTerms ''['' = \<lparr>tagSearchTerms = [], regularSearchTerms = [''['']\<rparr>"
    by code_simp
  have b: "buildQuery [''[''] (Some []) = SyntaxError"
    by (simp add: buildQuery_def RegExp_i_def syntax_characters_def)
  have "getQuestions ps db order (Some ''['') = SyntaxError"
    by (simp add: getQuestions_def createStrategy_def p isSpecialSearch_def findTagIds_empty b)
  with p b show ?thesis
    by (simp add: findTagIds_empty)
qed

end
